theory Spec2Isabelle
  imports Complex_Main "HOL-Library.AList"
begin

section \<open>Dates\<close>

text \<open>
  A JavaScript \<open>Date\<close> is modelled by its time value: the integer number of
  milliseconds since the epoch. The local time zone is a fixed offset \<open>tz\<close> (in
  milliseconds, local time = UTC + \<open>tz\<close>) that every function reading local calendar
  fields takes as its first argument; daylight-saving changes are not modelled, so every
  local day has \<open>msPerDay\<close> milliseconds. Arithmetic on time values is exact integer
  arithmetic.
\<close>

type_synonym date = int

definition msPerDay :: int where
  "msPerDay = 1000 * 60 * 60 * 24"

text \<open>The number of the local calendar day holding \<open>t\<close> (day 0 is 1970-01-01).\<close>

definition localDay :: "int \<Rightarrow> date \<Rightarrow> int" where
  "localDay tz t = (t + tz) div msPerDay"

text \<open>\<open>d.setHours(0, 0, 0, 0)\<close>: the local midnight that starts the day of \<open>t\<close>.\<close>

definition setHours0 :: "int \<Rightarrow> date \<Rightarrow> date" where
  "setHours0 tz t = t - (t + tz) mod msPerDay"

text \<open>
  \<open>addDays\<close>: \<open>result.setDate(result.getDate() + days)\<close> moves the local calendar day
  and keeps the local time of day.
\<close>

definition addDays :: "date \<Rightarrow> int \<Rightarrow> date" where
  "addDays t days = t + days * msPerDay"

text \<open>\<open>getDay()\<close>: 0 is Sunday; 1970-01-01 was a Thursday.\<close>

definition getDay :: "int \<Rightarrow> date \<Rightarrow> int" where
  "getDay tz t = (localDay tz t + 4) mod 7"

text \<open>\<open>date.toLocaleString('en-US', { weekday: 'short' })\<close>.\<close>

definition weekdayShort :: "int \<Rightarrow> date \<Rightarrow> string" where
  "weekdayShort tz t =
     [''Sun'', ''Mon'', ''Tue'', ''Wed'', ''Thu'', ''Fri'', ''Sat''] ! nat (getDay tz t)"

text \<open>
  The local calendar fields of a time value, in the proleptic Gregorian calendar that
  \<open>Date\<close> uses. Days are counted from 0000-03-01 in eras of 400 years (146097 days), so
  that a leap day is the last day of a year that starts in March: \<open>dayOfEra\<close> is the
  day within the era, \<open>yearOfEra\<close> the March-based year within the era, \<open>dayOfYear\<close>
  the day within that year and \<open>marchMonth\<close> its month, 0 for March.
\<close>

definition era :: "int \<Rightarrow> int" where
  "era n = (n + 719468) div 146097"

definition dayOfEra :: "int \<Rightarrow> int" where
  "dayOfEra n = (n + 719468) mod 146097"

definition yearOfEra :: "int \<Rightarrow> int" where
  "yearOfEra doe = (doe - doe div 1460 + doe div 36524 - doe div 146096) div 365"

definition dayOfYear :: "int \<Rightarrow> int" where
  "dayOfYear doe = doe - (365 * yearOfEra doe + yearOfEra doe div 4 - yearOfEra doe div 100)"

definition marchMonth :: "int \<Rightarrow> int" where
  "marchMonth doy = (5 * doy + 2) div 153"

text \<open>\<open>getDate()\<close>: the day of the month, from 1.\<close>

definition getDate :: "int \<Rightarrow> date \<Rightarrow> int" where
  "getDate tz t =
     dayOfYear (dayOfEra (localDay tz t))
       - (153 * marchMonth (dayOfYear (dayOfEra (localDay tz t))) + 2) div 5 + 1"

text \<open>\<open>getMonth()\<close>: the month, from 0 for January.\<close>

definition getMonth :: "int \<Rightarrow> date \<Rightarrow> int" where
  "getMonth tz t =
     (if marchMonth (dayOfYear (dayOfEra (localDay tz t))) < 10
      then marchMonth (dayOfYear (dayOfEra (localDay tz t))) + 2
      else marchMonth (dayOfYear (dayOfEra (localDay tz t))) - 10)"

text \<open>\<open>getFullYear()\<close>.\<close>

definition getFullYear :: "int \<Rightarrow> date \<Rightarrow> int" where
  "getFullYear tz t =
     yearOfEra (dayOfEra (localDay tz t)) + era (localDay tz t) * 400
       + (if getMonth tz t \<le> 1 then 1 else 0)"

text \<open>\<open>Number.prototype.toString()\<close> on an integer: its decimal digits.\<close>

fun natToString :: "nat \<Rightarrow> string" where
  "natToString n =
     (if n < 10 then [''0123456789'' ! n]
      else natToString (n div 10) @ [''0123456789'' ! (n mod 10)])"

declare natToString.simps [simp del]

definition toString :: "int \<Rightarrow> string" where
  "toString i = (if i < 0 then CHR ''-'' # natToString (nat (- i)) else natToString (nat i))"

text \<open>\<open>s.padStart(n, '0')\<close>.\<close>

definition padStart0 :: "nat \<Rightarrow> string \<Rightarrow> string" where
  "padStart0 n s = replicate (n - length s) CHR ''0'' @ s"

text \<open>
  \<open>formatDate(date, 'yyyy-MM-dd')\<close> of App.tsx, which is also \<open>formatDateString(date)\<close>
  of AddHabitModal.tsx: the key of a day in a habit's \<open>completed\<close> object.
\<close>

definition formatDate :: "int \<Rightarrow> date \<Rightarrow> string" where
  "formatDate tz t =
     toString (getFullYear tz t) @ ''-'' @ padStart0 2 (toString (getMonth tz t + 1))
       @ ''-'' @ padStart0 2 (toString (getDate tz t))"

text \<open>\<open>getDaysDifference\<close>: whole days in the absolute difference of two time values.\<close>

definition getDaysDifference :: "date \<Rightarrow> date \<Rightarrow> int" where
  "getDaysDifference date1 date2 = \<bar>date2 - date1\<bar> div msPerDay"

section \<open>Habits\<close>

text \<open>
  The \<open>Habit\<close> interface. The \<open>completed\<close> object is the list of its entries in
  insertion order, with distinct keys; a value is \<open>Some True\<close>, \<open>Some False\<close> or
  \<open>None\<close> for \<open>null\<close>, and a key without an entry reads as \<open>undefined\<close>.
\<close>

record habit =
  id_h :: int
  name :: string
  description :: string
  color :: string
  type_h :: string
  categories :: "(string \<times> string) list"
  frequencyType :: string
  selectedDays :: "string list"
  timesPerPeriod :: int
  periodUnit :: string
  repeatDays :: int
  completed :: "(string \<times> bool option) list"
  order_h :: int

text \<open>\<open>habit.completed[dateString]\<close> read as a condition: only \<open>true\<close> is truthy.\<close>

definition isCompleted :: "habit \<Rightarrow> string \<Rightarrow> bool" where
  "isCompleted h dateString = (map_of (completed h) dateString = Some (Some True))"

section \<open>The schedule evaluators\<close>

text \<open>
  \<open>isHabitScheduledOnDay\<close> of App.tsx. In the \<open>Repeats\<close> case the remainder is taken
  of a non-negative number by a number above 1, where \<open>%\<close> and \<open>mod\<close> agree.
\<close>

definition isHabitScheduledOnDay :: "int \<Rightarrow> habit \<Rightarrow> date \<Rightarrow> bool" where
  "isHabitScheduledOnDay tz h d =
     (if frequencyType h = ''Everyday'' then True
      else if frequencyType h = ''Anytime'' then True
      else if frequencyType h = ''Some days of the week'' then
        weekdayShort tz d \<in> set (selectedDays h)
      else if frequencyType h = ''Numbers of times per period'' then True
      else if frequencyType h = ''Repeats'' then
        (if repeatDays h \<le> 1 then True
         else let startDate = id_h h;
                  daysDiff = getDaysDifference startDate d
              in daysDiff mod repeatDays h = 0)
      else True)"

text \<open>
  The local \<open>isHabitScheduledOnDay\<close> of \<open>calculateHabitStats\<close> in AddHabitModal.tsx. It
  reads \<open>habitCreationDate\<close> from the enclosing function, which is the second argument
  here.
\<close>

definition isHabitScheduledOnDay_modal :: "int \<Rightarrow> date \<Rightarrow> habit \<Rightarrow> date \<Rightarrow> bool" where
  "isHabitScheduledOnDay_modal tz habitCreationDate h d =
     (if frequencyType h = ''Everyday'' then True
      else if frequencyType h = ''Some days of the week'' then
        weekdayShort tz d \<in> set (selectedDays h)
      else if frequencyType h = ''Numbers of times per period'' then True
      else if frequencyType h = ''Repeats'' then
        (if repeatDays h \<le> 1 then True
         else let timeDiff = \<bar>d - habitCreationDate\<bar>;
                  daysDiff = timeDiff div msPerDay
              in daysDiff mod repeatDays h = 0)
      else True)"

section \<open>The current streak\<close>

text \<open>
  The loop of \<open>calculateStreak\<close> in App.tsx. The counter argument is the number of
  iterations left, \<open>365 - daysBack\<close>. The state is \<open>currentDay\<close> and \<open>streak\<close>; the
  list beside \<open>streak\<close> is not in the source: it records, in order, each value of
  \<open>currentDay\<close> for which the loop body runs past the creation-date check.
\<close>

fun streakLoop ::
  "int \<Rightarrow> habit \<Rightarrow> date \<Rightarrow> nat \<Rightarrow> date \<Rightarrow> nat \<times> date list \<Rightarrow> nat \<times> date list" where
  "streakLoop tz h habitCreationDate 0 currentDay (streak, seen) = (streak, seen)"
| "streakLoop tz h habitCreationDate (Suc n) currentDay (streak, seen) =
     (if currentDay < habitCreationDate then (streak, seen)
      else let dateString = formatDate tz currentDay;
               isScheduled = isHabitScheduledOnDay tz h currentDay
           in if isScheduled then
                (if isCompleted h dateString then
                   streakLoop tz h habitCreationDate n (addDays currentDay (- 1))
                     (streak + 1, seen @ [currentDay])
                 else (streak, seen @ [currentDay]))
              else streakLoop tz h habitCreationDate n (addDays currentDay (- 1))
                     (streak, seen @ [currentDay]))"

text \<open>\<open>calculateStreak\<close>; \<open>now\<close> is the value of \<open>new Date()\<close>.\<close>

definition streakRun :: "int \<Rightarrow> date \<Rightarrow> habit \<Rightarrow> nat \<times> date list" where
  "streakRun tz now h =
     (let today = setHours0 tz now;
          habitCreationDate = setHours0 tz (id_h h)
      in streakLoop tz h habitCreationDate 365 today (0, []))"

definition calculateStreak :: "int \<Rightarrow> date \<Rightarrow> habit \<Rightarrow> nat" where
  "calculateStreak tz now h = fst (streakRun tz now h)"

section \<open>Habit statistics\<close>

text \<open>
  The \<open>while (currentDay <= today)\<close> loop of \<open>calculateHabitStats\<close> in
  AddHabitModal.tsx, on the state \<open>(highestStreak, currentStreak)\<close>.
\<close>

function highestLoop ::
  "int \<Rightarrow> habit \<Rightarrow> date \<Rightarrow> date \<Rightarrow> date \<Rightarrow> nat \<times> nat \<Rightarrow> nat \<times> nat" where
  "highestLoop tz h habitCreationDate today currentDay (highestStreak, currentStreak) =
     (if currentDay \<le> today then
        let dateString = formatDate tz currentDay;
            isScheduled = isHabitScheduledOnDay_modal tz habitCreationDate h currentDay
        in highestLoop tz h habitCreationDate today (addDays currentDay 1)
             (if isScheduled then
                (if isCompleted h dateString then
                   (max highestStreak (currentStreak + 1), currentStreak + 1)
                 else (highestStreak, 0))
              else (highestStreak, currentStreak))
      else (highestStreak, currentStreak))"
  by pat_completeness auto
termination
  by (relation "measure (\<lambda>(tz, h, c, today, currentDay, s). nat (today - currentDay + 1))")
     (auto simp: addDays_def msPerDay_def)

declare highestLoop.simps [simp del]

record stats =
  totalCompletions :: nat
  highestStreak :: nat

text \<open>
  \<open>calculateHabitStats\<close>; the argument is \<open>None\<close> for a \<open>null\<close> habit. A habit record
  always has its \<open>completed\<close> object, so \<open>!habit.completed\<close> is false for it.
\<close>

definition calculateHabitStats :: "int \<Rightarrow> date \<Rightarrow> habit option \<Rightarrow> stats" where
  "calculateHabitStats tz now habit =
     (case habit of
        None \<Rightarrow> \<lparr>totalCompletions = 0, highestStreak = 0\<rparr>
      | Some h \<Rightarrow>
          let today = setHours0 tz now;
              habitCreationDate = setHours0 tz (id_h h)
          in \<lparr>totalCompletions = length (filter (\<lambda>v. v = Some True) (map snd (completed h))),
              highestStreak = fst (highestLoop tz h habitCreationDate today habitCreationDate (0, 0))\<rparr>)"

section \<open>The completion ratio of a day\<close>

text \<open>
  The result of a JavaScript division of two array lengths: a number, taken exactly,
  \<open>Infinity\<close> or \<open>NaN\<close>.
\<close>

datatype jsnum = Num rat | Infinity | NaN

definition jsDivide :: "nat \<Rightarrow> nat \<Rightarrow> jsnum" where
  "jsDivide a b =
     (if b = 0 then (if a = 0 then NaN else Infinity) else Num (of_nat a / of_nat b))"

text \<open>The three constants computed for each calendar cell of \<open>MonthView\<close> in App.tsx.\<close>

definition completedHabits :: "int \<Rightarrow> habit list \<Rightarrow> date \<Rightarrow> habit list" where
  "completedHabits tz habits d =
     filter (\<lambda>h. isHabitScheduledOnDay tz h d \<and> isCompleted h (formatDate tz d)) habits"

definition scheduledHabits :: "int \<Rightarrow> habit list \<Rightarrow> date \<Rightarrow> habit list" where
  "scheduledHabits tz habits d = filter (\<lambda>h. isHabitScheduledOnDay tz h d) habits"

definition completionRate :: "int \<Rightarrow> habit list \<Rightarrow> date \<Rightarrow> jsnum" where
  "completionRate tz habits d =
     (if length (scheduledHabits tz habits d) > 0
      then jsDivide (length (completedHabits tz habits d)) (length (scheduledHabits tz habits d))
      else Num 0)"

section \<open>Toggling a completion\<close>

text \<open>
  \<open>handleToggleHabit\<close> of App.tsx: the function given to \<open>setHabits\<close>, applied to the
  previous list of habits. Assigning to a key of the copied object replaces the value of
  an existing entry in place and appends a new entry otherwise.
\<close>

definition toggleCompleted :: "(string \<times> bool option) list \<Rightarrow> string \<Rightarrow> (string \<times> bool option) list" where
  "toggleCompleted newCompleted dateString =
     (case map_of newCompleted dateString of
        None \<Rightarrow> AList.update dateString (Some True) newCompleted
      | Some None \<Rightarrow> AList.update dateString (Some True) newCompleted
      | Some (Some True) \<Rightarrow> AList.update dateString (Some False) newCompleted
      | Some (Some False) \<Rightarrow> AList.update dateString None newCompleted)"

definition handleToggleHabit :: "int \<Rightarrow> string \<Rightarrow> habit list \<Rightarrow> habit list" where
  "handleToggleHabit habitId dateString prevHabits =
     map (\<lambda>h. if id_h h = habitId
              then h\<lparr>completed := toggleCompleted (completed h) dateString\<rparr>
              else h) prevHabits"

section \<open>Reference definitions\<close>

text \<open>
  The definitions of this section are not taken from the source: they say, in the words
  of the specification, what the loops above are compared with.
\<close>

text \<open>
  The rule table of the schedule: a habit is due on a date when its frequency type is
  \<open>Some days of the week\<close> and the short weekday name of the date is among its selected
  days; when its frequency type is \<open>Repeats\<close> and either the repeat interval is at
  most 1 or the whole days between the creation date and the date, both set to midnight,
  are a multiple of the interval; and always for every other frequency type.
\<close>

definition spec_isDue :: "int \<Rightarrow> habit \<Rightarrow> date \<Rightarrow> bool" where
  "spec_isDue tz h d =
     (if frequencyType h = ''Some days of the week'' then
        weekdayShort tz d \<in> set (selectedDays h)
      else if frequencyType h = ''Repeats'' then
        repeatDays h \<le> 1 \<or>
        getDaysDifference (setHours0 tz (id_h h)) (setHours0 tz d) mod repeatDays h = 0
      else True)"

text \<open>
  The completion ratio of a date by the rule table: the habits due on the date that have
  the entry \<open>true\<close> for it, over the habits due on the date, and 0 when none is due.
\<close>

definition spec_completionRatio :: "int \<Rightarrow> habit list \<Rightarrow> date \<Rightarrow> rat" where
  "spec_completionRatio tz habits d =
     (if length (filter (\<lambda>h. spec_isDue tz h d) habits) = 0 then 0
      else of_nat (length (filter (\<lambda>h. spec_isDue tz h d \<and> isCompleted h (formatDate tz d)) habits))
           / of_nat (length (filter (\<lambda>h. spec_isDue tz h d) habits)))"

text \<open>
  The days of the backward walk of the streak: from the reference day back, one day at a
  time, at most 365 days and none before the creation day.
\<close>

definition spec_scanDays :: "date \<Rightarrow> date \<Rightarrow> date list" where
  "spec_scanDays creation asOf =
     map (\<lambda>i. addDays asOf (- int i))
       [0 ..< min 365 (nat ((asOf - creation) div msPerDay + 1))]"

text \<open>The same days, by the recursion of the walk, with the day limit as a parameter.\<close>

fun walkBack :: "date \<Rightarrow> nat \<Rightarrow> date \<Rightarrow> date list" where
  "walkBack c 0 cur = []"
| "walkBack c (Suc n) cur = (if cur < c then [] else cur # walkBack c n (addDays cur (- 1)))"

text \<open>
  The streak of a walk that has no limit: \<open>n\<close> is the number of due days before the first
  due day, \<open>k\<close> days back, whose entry is not \<open>true\<close>, and every due day before that one
  has the entry \<open>true\<close>.
\<close>

definition spec_backwardStreak :: "int \<Rightarrow> date \<Rightarrow> habit \<Rightarrow> nat \<Rightarrow> bool" where
  "spec_backwardStreak tz asOf h n \<longleftrightarrow>
     (\<exists>k. spec_isDue tz h (addDays (setHours0 tz asOf) (- int k))
        \<and> \<not> isCompleted h (formatDate tz (addDays (setHours0 tz asOf) (- int k)))
        \<and> (\<forall>i<k. spec_isDue tz h (addDays (setHours0 tz asOf) (- int i)) \<longrightarrow>
               isCompleted h (formatDate tz (addDays (setHours0 tz asOf) (- int i))))
        \<and> n = card {i. i < k \<and> spec_isDue tz h (addDays (setHours0 tz asOf) (- int i))})"




text \<open>
  The three states of an entry: \<open>Some True\<close> for completed, \<open>Some False\<close> for marked not
  done, \<open>None\<close> for unmarked, which is a \<open>null\<close> entry or no entry; and the cycle
  unmarked, completed, not done, unmarked.
\<close>

definition spec_triState :: "habit \<Rightarrow> string \<Rightarrow> bool option" where
  "spec_triState h k = (case map_of (completed h) k of None \<Rightarrow> None | Some v \<Rightarrow> v)"

fun spec_nextState :: "bool option \<Rightarrow> bool option" where
  "spec_nextState None = Some True"
| "spec_nextState (Some True) = Some False"
| "spec_nextState (Some False) = None"

section \<open>Example habits\<close>

text \<open>
  A habit shaped like the initial habits of \<open>App\<close>, with the fields that the schedule
  and streak functions read left open: the identifier (the creation time), the frequency
  type, the selected days, the repeat interval and the completion entries.
\<close>

definition exampleHabit ::
  "int \<Rightarrow> string \<Rightarrow> string list \<Rightarrow> int \<Rightarrow> (string \<times> bool option) list \<Rightarrow> habit" where
  "exampleHabit i f days r c =
     \<lparr>id_h = i, name = ''Jog in the morning'', description = ''Morning exercise'',
      color = ''green'', type_h = ''Habit'', categories = [(''Physical'', ''Exercise'')],
      frequencyType = f, selectedDays = days, timesPerPeriod = 1, periodUnit = ''Week'',
      repeatDays = r, completed = c, order_h = 0\<rparr>"

text \<open>
  A habit due on Mondays and Wednesdays, created on Sunday 2023-12-31 at 10:00 and
  completed on the six Mondays and Wednesdays from 2024-01-01 to 2024-01-17.
\<close>

definition monWedHabit :: habit where
  "monWedHabit =
     exampleHabit 1704016800000 ''Some days of the week'' [''Mon'', ''Wed''] 1
       [(''2024-01-01'', Some True), (''2024-01-03'', Some True), (''2024-01-08'', Some True),
        (''2024-01-10'', Some True), (''2024-01-15'', Some True), (''2024-01-17'', Some True)]"


text \<open>
  An everyday habit created on 2023-11-15 at 15:00 and completed on that day and on the
  day before, which the week view lets the user mark.
\<close>

definition backfilledHabit :: habit where
  "backfilledHabit =
     exampleHabit 1700060400000 ''Everyday'' [] 1
       [(''2023-11-14'', Some True), (''2023-11-15'', Some True)]"

text \<open>An everyday habit with one entry in each state.\<close>

definition mixedHabit :: habit where
  "mixedHabit =
     exampleHabit 2 ''Everyday'' [] 1
       [(''2024-01-01'', Some True), (''2024-01-02'', Some False), (''2024-01-03'', None),
        (''2024-01-06'', Some True)]"

text \<open>
  Two habits that repeat every 3 days, completed on 2023-11-15 and on 2023-11-18: one
  created on 2023-11-15 at midnight, the other on the same day at 15:00.
\<close>

definition repeatsMidnightHabit :: habit where
  "repeatsMidnightHabit =
     exampleHabit 1700006400000 ''Repeats'' [] 3
       [(''2023-11-15'', Some True), (''2023-11-18'', Some True)]"

definition repeatsAfternoonHabit :: habit where
  "repeatsAfternoonHabit =
     exampleHabit 1700060400000 ''Repeats'' [] 3
       [(''2023-11-15'', Some True), (''2023-11-18'', Some True)]"

text \<open>An everyday habit completed on 2023-11-16.\<close>

definition everydayDoneHabit :: habit where
  "everydayDoneHabit =
     exampleHabit 1700000000000 ''Everyday'' [] 1 [(''2023-11-16'', Some True)]"

section \<open>Evaluating dates\<close>

lemma natToString_numeral:
  "natToString (numeral k) =
     (if (numeral k :: nat) < 10 then [''0123456789'' ! numeral k]
      else natToString (numeral k div 10) @ [''0123456789'' ! (numeral k mod 10)])"
  by (rule natToString.simps)

lemma natToString_0: "natToString 0 = ''0''"
  by (simp add: natToString.simps)

lemma natToString_1: "natToString (Suc 0) = ''1''"
  by (simp add: natToString.simps)

lemmas date_eval =
  formatDate_def getFullYear_def getMonth_def getDate_def era_def dayOfEra_def yearOfEra_def
  dayOfYear_def marchMonth_def localDay_def msPerDay_def toString_def padStart0_def
  natToString_numeral natToString_0 natToString_1 setHours0_def addDays_def
  weekdayShort_def getDay_def getDaysDifference_def

lemma getDay_range: "0 \<le> getDay tz d \<and> getDay tz d < 7"
  by (simp add: getDay_def)

lemma weekdayShort_cases:
  "(getDay tz d = 0 \<and> weekdayShort tz d = ''Sun'') \<or>
   (getDay tz d = 1 \<and> weekdayShort tz d = ''Mon'') \<or>
   (getDay tz d = 2 \<and> weekdayShort tz d = ''Tue'') \<or>
   (getDay tz d = 3 \<and> weekdayShort tz d = ''Wed'') \<or>
   (getDay tz d = 4 \<and> weekdayShort tz d = ''Thu'') \<or>
   (getDay tz d = 5 \<and> weekdayShort tz d = ''Fri'') \<or>
   (getDay tz d = 6 \<and> weekdayShort tz d = ''Sat'')"
proof -
  have "getDay tz d \<in> {0, 1, 2, 3, 4, 5, 6}"
    using getDay_range [of tz d] by auto
  then show ?thesis
    by (auto simp: weekdayShort_def)
qed

text \<open>The calendar agrees with the world at a known day: 1 January 2024 was a Monday.\<close>

lemma monday_anchor:
  "formatDate 0 1704067200000 = ''2024-01-01'' \<and> weekdayShort 0 1704067200000 = ''Mon''"
  by (simp add: date_eval)

lemma leap_day_anchor:
  "formatDate 0 1709164800000 = ''2024-02-29''
   \<and> formatDate 0 (addDays 1709164800000 1) = ''2024-03-01''
   \<and> formatDate (- 18000000) 1704085200000 = ''2024-01-01''"
  by (simp add: date_eval)

section \<open>The schedule evaluator\<close>

text \<open>
  C7. A habit whose frequency type is \<open>Everyday\<close>, \<open>Anytime\<close> or
  \<open>Numbers of times per period\<close>, or any value that the evaluator does not recognise
  (any string other than \<open>Some days of the week\<close> and \<open>Repeats\<close>), is due on every
  date. The evaluator is a total function: no case of it fails.
\<close>

theorem C7_always_due:
  assumes "frequencyType h \<in> {''Everyday'', ''Anytime'', ''Numbers of times per period''}
           \<or> frequencyType h \<notin> {''Some days of the week'', ''Repeats''}"
  shows "isHabitScheduledOnDay tz h d"
  using assms by (auto simp: isHabitScheduledOnDay_def)

theorem C7_always_due_witness:
  "isHabitScheduledOnDay 0 (exampleHabit 1700060400000 ''Anytime'' [] 1 []) 1705500000000
   \<and> isHabitScheduledOnDay 0 (exampleHabit 1700060400000 ''Weekly'' [] 1 []) 1705500000000"
  using C7_always_due [of "exampleHabit 1700060400000 ''Anytime'' [] 1 []" 0 1705500000000]
    C7_always_due [of "exampleHabit 1700060400000 ''Weekly'' [] 1 []" 0 1705500000000]
  by (simp add: exampleHabit_def)

text \<open>
  C6. A habit with frequency type \<open>Some days of the week\<close> is due on a date exactly when
  the short English weekday name of the date is among its selected days; that name is
  always one of Mon, Tue, Wed, Thu, Fri, Sat, Sun. With the selected days Mon and Wed the
  habit is due exactly on Mondays (\<open>getDay\<close> 1) and Wednesdays (\<open>getDay\<close> 3).
\<close>

theorem C6_some_days_of_the_week:
  assumes "frequencyType h = ''Some days of the week''"
  shows "(isHabitScheduledOnDay tz h d \<longleftrightarrow> weekdayShort tz d \<in> set (selectedDays h))
       \<and> weekdayShort tz d \<in> {''Mon'', ''Tue'', ''Wed'', ''Thu'', ''Fri'', ''Sat'', ''Sun''}
       \<and> (selectedDays h = [''Mon'', ''Wed''] \<longrightarrow>
            (isHabitScheduledOnDay tz h d \<longleftrightarrow> getDay tz d = 1 \<or> getDay tz d = 3))"
proof -
  have a: "isHabitScheduledOnDay tz h d \<longleftrightarrow> weekdayShort tz d \<in> set (selectedDays h)"
    using assms by (simp add: isHabitScheduledOnDay_def)
  have b: "weekdayShort tz d \<in> {''Mon'', ''Tue'', ''Wed'', ''Thu'', ''Fri'', ''Sat'', ''Sun''}"
    using weekdayShort_cases [of tz d] by auto
  have c: "weekdayShort tz d \<in> set [''Mon'', ''Wed''] \<longleftrightarrow> getDay tz d = 1 \<or> getDay tz d = 3"
    using weekdayShort_cases [of tz d] by auto
  show ?thesis using a b c by simp
qed

theorem C6_some_days_of_the_week_witness:
  "isHabitScheduledOnDay 0
     (exampleHabit 1700060400000 ''Some days of the week'' [''Mon'', ''Wed''] 1 []) 1704067200000
   \<and> getDay 0 1704067200000 = 1
   \<and> \<not> isHabitScheduledOnDay 0
     (exampleHabit 1700060400000 ''Some days of the week'' [''Mon'', ''Wed''] 1 [])
     (addDays 1704067200000 1)"
  using C6_some_days_of_the_week
    [of "exampleHabit 1700060400000 ''Some days of the week'' [''Mon'', ''Wed''] 1 []" 0 1704067200000]
    C6_some_days_of_the_week
    [of "exampleHabit 1700060400000 ''Some days of the week'' [''Mon'', ''Wed''] 1 []" 0 "addDays 1704067200000 1"]
  by (simp add: exampleHabit_def date_eval)

text \<open>
  The evaluator inside \<open>calculateHabitStats\<close> follows the rule for \<open>Repeats\<close> with both
  dates at midnight: it is given the creation date set to midnight.
\<close>

lemma modal_repeats_rule:
  assumes "frequencyType h = ''Repeats''"
  shows "isHabitScheduledOnDay_modal tz (setHours0 tz (id_h h)) h (setHours0 tz d) \<longleftrightarrow>
           repeatDays h \<le> 1 \<or>
           getDaysDifference (setHours0 tz (id_h h)) (setHours0 tz d) mod repeatDays h = 0"
  using assms by (simp add: isHabitScheduledOnDay_modal_def getDaysDifference_def)

text \<open>
  The two evaluators agree on every habit that is not a \<open>Repeats\<close> habit with an interval
  above one day, and on every habit created at a local midnight.
\<close>

lemma evaluators_agree_elsewhere:
  assumes "frequencyType h \<noteq> ''Repeats'' \<or> repeatDays h \<le> 1 \<or> setHours0 tz (id_h h) = id_h h"
  shows "isHabitScheduledOnDay_modal tz (setHours0 tz (id_h h)) h d = isHabitScheduledOnDay tz h d"
  using assms
  by (auto simp: isHabitScheduledOnDay_modal_def isHabitScheduledOnDay_def getDaysDifference_def)

text \<open>A day of a walk that starts at a midnight is a midnight.\<close>

lemma setHours0_addDays_midnight:
  "setHours0 tz (addDays (setHours0 tz a) k) = addDays (setHours0 tz a) k"
proof -
  have e: "a + tz - (a + tz) mod msPerDay = msPerDay * ((a + tz) div msPerDay)"
    by (rule minus_mod_eq_mult_div)
  have "a - (a + tz) mod msPerDay + k * msPerDay + tz
          = (a + tz - (a + tz) mod msPerDay) + k * msPerDay"
    by simp
  also have "\<dots> = msPerDay * ((a + tz) div msPerDay + k)"
    unfolding e by (simp add: algebra_simps)
  finally have "(a - (a + tz) mod msPerDay + k * msPerDay + tz) mod msPerDay = 0"
    by simp
  then show ?thesis
    by (simp add: setHours0_def addDays_def)
qed

text \<open>
  The evaluator of App.tsx follows the rule table at every midnight for every habit that
  is not a \<open>Repeats\<close> habit with an interval above one day, and for every habit created
  at a local midnight.
\<close>

lemma evaluator_follows_rule:
  assumes "frequencyType h \<noteq> ''Repeats'' \<or> repeatDays h \<le> 1 \<or> setHours0 tz (id_h h) = id_h h"
    and "setHours0 tz d = d"
  shows "isHabitScheduledOnDay tz h d = spec_isDue tz h d"
  using assms by (auto simp: isHabitScheduledOnDay_def spec_isDue_def)

text \<open>
  C1. For a \<open>Repeats\<close> habit with an interval of 3 days the claim makes the day after the
  creation day not due. The evaluator of App.tsx subtracts the creation time as it is,
  not set to midnight: for a habit created on 2023-11-15 at 15:00 the midnight of
  2023-11-16 is 9 hours away, which is 0 whole days, so the habit is due on 2023-11-16,
  where the rule of the claim, on the two midnights, gives a difference of 1 day.
\<close>

theorem C1_repeats_from_raw_timestamp:
  "formatDate 0 1700060400000 = ''2023-11-15''
   \<and> setHours0 0 (addDays 1700060400000 1) = 1700092800000
   \<and> formatDate 0 1700092800000 = ''2023-11-16''
   \<and> isHabitScheduledOnDay 0 (exampleHabit 1700060400000 ''Repeats'' [] 3 []) 1700092800000
   \<and> getDaysDifference (setHours0 0 1700060400000) (setHours0 0 1700092800000) mod 3 \<noteq> 0"
  by (simp add: exampleHabit_def isHabitScheduledOnDay_def date_eval)

text \<open>
  C9. The two evaluators differ on a \<open>Repeats\<close> habit created during the day: for the
  habit created on 2023-11-15 at 15:00 with an interval of 3 days, the midnight of
  2023-11-18 is not due for the evaluator of App.tsx (57 hours, 2 whole days) and due for
  the evaluator of \<open>calculateHabitStats\<close> (3 days from the creation midnight).
\<close>

theorem C9_evaluators_differ:
  "addDays (setHours0 0 1700060400000) 3 = 1700265600000
   \<and> \<not> isHabitScheduledOnDay 0 (exampleHabit 1700060400000 ''Repeats'' [] 3 []) 1700265600000
   \<and> isHabitScheduledOnDay_modal 0 (setHours0 0 1700060400000)
        (exampleHabit 1700060400000 ''Repeats'' [] 3 []) 1700265600000"
  by (simp add: exampleHabit_def isHabitScheduledOnDay_def isHabitScheduledOnDay_modal_def
      date_eval)

section \<open>The completion ratio of a day\<close>

text \<open>
  The ratio of \<open>MonthView\<close> is the number of habits that the evaluator schedules on the
  date and that have the entry \<open>true\<close> for it, divided by the number of habits that the
  evaluator schedules on the date; when it schedules none the ratio is the number 0. It
  is never \<open>NaN\<close> and never \<open>Infinity\<close>.
\<close>

lemma completionRate_counts:
  "completionRate tz habits d =
     (if length (filter (\<lambda>h. isHabitScheduledOnDay tz h d) habits) = 0 then Num 0
      else Num (of_nat (length (filter (\<lambda>h. isCompleted h (formatDate tz d))
                                   (filter (\<lambda>h. isHabitScheduledOnDay tz h d) habits)))
                / of_nat (length (filter (\<lambda>h. isHabitScheduledOnDay tz h d) habits))))
   \<and> completionRate tz habits d \<noteq> NaN \<and> completionRate tz habits d \<noteq> Infinity"
  by (simp add: completionRate_def scheduledHabits_def completedHabits_def jsDivide_def
      conj_commute)

text \<open>
  Where the evaluator follows the rule table on every habit of the list, the ratio of
  \<open>MonthView\<close> is the ratio of the rule table.
\<close>

lemma completionRate_follows_rule:
  assumes "\<forall>h \<in> set habits. isHabitScheduledOnDay tz h d = spec_isDue tz h d"
  shows "completionRate tz habits d = Num (spec_completionRatio tz habits d)"
proof -
  have s: "filter (\<lambda>h. isHabitScheduledOnDay tz h d) habits = filter (\<lambda>h. spec_isDue tz h d) habits"
    using assms by (intro filter_cong refl) simp
  have c: "filter (\<lambda>h. isHabitScheduledOnDay tz h d \<and> isCompleted h (formatDate tz d)) habits
         = filter (\<lambda>h. spec_isDue tz h d \<and> isCompleted h (formatDate tz d)) habits"
    using assms by (intro filter_cong refl) simp
  show ?thesis
    by (simp add: completionRate_def scheduledHabits_def completedHabits_def jsDivide_def
        spec_completionRatio_def s c)
qed

text \<open>
  C4. The claim divides by the number of habits due on the date. On the midnight of
  2023-11-16, with an everyday habit completed on that day and a habit that repeats
  every 3 days, created on 2023-11-15 at 15:00 and not due on 2023-11-16, the ratio of
  the claim is 1 of 1. \<open>MonthView\<close> asks the evaluator of App.tsx, which finds 0 whole
  days between the creation time and that midnight and schedules the repeating habit:
  its ratio is 1 of 2.
\<close>

theorem C4_ratio_counts_habit_not_due:
  "formatDate 0 1700092800000 = ''2023-11-16''
   \<and> setHours0 0 1700092800000 = 1700092800000
   \<and> \<not> spec_isDue 0 repeatsAfternoonHabit 1700092800000
   \<and> isHabitScheduledOnDay 0 repeatsAfternoonHabit 1700092800000
   \<and> completionRate 0 [everydayDoneHabit, repeatsAfternoonHabit] 1700092800000 = Num (1 / 2)
   \<and> spec_completionRatio 0 [everydayDoneHabit, repeatsAfternoonHabit] 1700092800000 = 1"
proof -
  have a: "formatDate 0 1700092800000 = ''2023-11-16''"
    "setHours0 0 1700092800000 = 1700092800000"
    by (simp_all add: date_eval)
  have b: "\<not> spec_isDue 0 repeatsAfternoonHabit 1700092800000"
    "spec_isDue 0 everydayDoneHabit 1700092800000"
    by (simp_all add: spec_isDue_def repeatsAfternoonHabit_def everydayDoneHabit_def
        exampleHabit_def getDaysDifference_def setHours0_def msPerDay_def)
  have c: "isHabitScheduledOnDay 0 repeatsAfternoonHabit 1700092800000"
    "isHabitScheduledOnDay 0 everydayDoneHabit 1700092800000"
    by (simp_all add: isHabitScheduledOnDay_def repeatsAfternoonHabit_def everydayDoneHabit_def
        exampleHabit_def getDaysDifference_def msPerDay_def)
  have d: "isCompleted everydayDoneHabit ''2023-11-16''"
    "\<not> isCompleted repeatsAfternoonHabit ''2023-11-16''"
    by (simp_all add: isCompleted_def repeatsAfternoonHabit_def everydayDoneHabit_def
        exampleHabit_def)
  have e: "completionRate 0 [everydayDoneHabit, repeatsAfternoonHabit] 1700092800000 = Num (1 / 2)"
    apply (simp only: completionRate_def scheduledHabits_def completedHabits_def filter.simps a)
    apply (simp add: b c d jsDivide_def)
    done
  have f: "spec_completionRatio 0 [everydayDoneHabit, repeatsAfternoonHabit] 1700092800000 = 1"
    apply (simp only: spec_completionRatio_def filter.simps a)
    apply (simp add: b c d)
    done
  show ?thesis
    using a b(1) c(1) e f by simp
qed

section \<open>Toggling a completion\<close>

lemma toggleCompleted_other:
  "k \<noteq> d \<Longrightarrow> map_of (toggleCompleted c d) k = map_of c k"
  by (simp add: toggleCompleted_def update_conv' split: option.splits bool.splits)

lemma toggleCompleted_entry:
  "map_of (toggleCompleted c d) d =
     Some (spec_nextState (case map_of c d of None \<Rightarrow> None | Some v \<Rightarrow> v))"
  by (simp add: toggleCompleted_def update_conv' split: option.splits bool.splits)

text \<open>A toggle keeps the keys of the \<open>completed\<close> object distinct.\<close>

lemma toggleCompleted_distinct:
  "distinct (map fst c) \<Longrightarrow> distinct (map fst (toggleCompleted c d))"
  by (simp add: toggleCompleted_def distinct_update split: option.splits bool.splits)

lemma spec_nextState_thrice: "spec_nextState (spec_nextState (spec_nextState s)) = s"
  by (cases s rule: spec_nextState.cases) simp_all

text \<open>
  C10. A toggle keeps the number of habits. A habit with another identifier is unchanged.
  In a habit with the given identifier only the \<open>completed\<close> object changes, and in it
  only the entry of the given date: the entry of every other date reads as before. The
  entry of the given date exists afterwards and its state is the next one in the cycle
  unmarked, completed, not done, unmarked; after three toggles the state is the one
  before them.
\<close>

theorem C10_toggle:
  "length (handleToggleHabit habitId d hs) = length hs
   \<and> (\<forall>i < length hs.
        (id_h (hs ! i) \<noteq> habitId \<longrightarrow> handleToggleHabit habitId d hs ! i = hs ! i)
      \<and> (id_h (hs ! i) = habitId \<longrightarrow>
           (handleToggleHabit habitId d hs ! i)\<lparr>completed := completed (hs ! i)\<rparr> = hs ! i
         \<and> (\<forall>k. k \<noteq> d \<longrightarrow>
               map_of (completed (handleToggleHabit habitId d hs ! i)) k
                 = map_of (completed (hs ! i)) k)
         \<and> spec_triState (handleToggleHabit habitId d hs ! i) d
              = spec_nextState (spec_triState (hs ! i) d)
         \<and> map_of (completed (handleToggleHabit habitId d hs ! i)) d \<noteq> None
         \<and> spec_triState
              (handleToggleHabit habitId d
                 (handleToggleHabit habitId d (handleToggleHabit habitId d hs)) ! i) d
              = spec_triState (hs ! i) d))"
  by (simp add: handleToggleHabit_def spec_triState_def toggleCompleted_other
      toggleCompleted_entry spec_nextState_thrice)

theorem C10_toggle_witness:
  "(1::nat) < length [exampleHabit 1 ''Everyday'' [] 1 [], mixedHabit]
   \<and> id_h ([exampleHabit 1 ''Everyday'' [] 1 [], mixedHabit] ! 1) = 2
   \<and> id_h ([exampleHabit 1 ''Everyday'' [] 1 [], mixedHabit] ! 0) \<noteq> 2
   \<and> ''2024-01-02'' \<noteq> ''2024-01-01''
   \<and> handleToggleHabit 2 ''2024-01-01'' [exampleHabit 1 ''Everyday'' [] 1 [], mixedHabit] ! 0
        = exampleHabit 1 ''Everyday'' [] 1 []
   \<and> map_of (completed
        (handleToggleHabit 2 ''2024-01-01'' [exampleHabit 1 ''Everyday'' [] 1 [], mixedHabit] ! 1))
        ''2024-01-02'' = Some (Some False)
   \<and> spec_triState
        (handleToggleHabit 2 ''2024-01-01'' [exampleHabit 1 ''Everyday'' [] 1 [], mixedHabit] ! 1)
        ''2024-01-01'' = Some False"
  using C10_toggle [of 2 "''2024-01-01''" "[exampleHabit 1 ''Everyday'' [] 1 [], mixedHabit]"]
  by (simp add: exampleHabit_def mixedHabit_def spec_triState_def)

section \<open>Total completions\<close>

lemma count_true_entries:
  "distinct (map fst xs) \<Longrightarrow>
     length (filter (\<lambda>v. v = Some True) (map snd xs)) = card {k. map_of xs k = Some (Some True)}"
proof (induction xs)
  case Nil
  then show ?case by simp
next
  case (Cons p xs)
  obtain k v where p: "p = (k, v)" by (cases p)
  let ?S = "{k'. map_of xs k' = Some (Some True)}"
  have fin: "finite ?S"
    by (rule finite_subset [OF _ finite_dom_map_of [of xs]]) auto
  have notin: "k \<notin> ?S"
    using Cons.prems p by (auto dest: map_of_SomeD intro: rev_image_eqI)
  have eq: "{k'. map_of (p # xs) k' = Some (Some True)} = (if v = Some True then insert k ?S else ?S)"
    using notin by (auto simp: p)
  have IH: "length (filter (\<lambda>v. v = Some True) (map snd xs)) = card ?S"
    using Cons by simp
  show ?case
  proof (cases "v = Some True")
    case True
    have "card (insert k ?S) = Suc (card ?S)"
      using fin notin by (rule card_insert_disjoint)
    with True IH show ?thesis
      unfolding eq by (simp add: p)
  next
    case False
    with IH show ?thesis
      unfolding eq by (simp add: p)
  qed
qed

text \<open>
  C8. For a habit whose \<open>completed\<close> object has distinct keys, as every object has,
  \<open>totalCompletions\<close> is the number of keys whose value is \<open>true\<close>. The count does not
  depend on the schedule: it is the same whatever the frequency type, the selected days
  and the repeat interval of the habit are.
\<close>

theorem C8_total_completions:
  assumes "distinct (map fst (completed h))"
  shows "totalCompletions (calculateHabitStats tz now (Some h))
           = card {k. map_of (completed h) k = Some (Some True)}
       \<and> totalCompletions (calculateHabitStats tz now
            (Some (h\<lparr>frequencyType := f, selectedDays := days, repeatDays := r\<rparr>)))
           = card {k. map_of (completed h) k = Some (Some True)}"
  using count_true_entries [OF assms] by (simp add: calculateHabitStats_def Let_def)

theorem C8_total_completions_witness:
  "distinct (map fst (completed mixedHabit))
   \<and> totalCompletions (calculateHabitStats 0 1704600000000 (Some mixedHabit)) = 2
   \<and> card {k. map_of (completed mixedHabit) k = Some (Some True)} = 2"
proof -
  have d: "distinct (map fst (completed mixedHabit))"
    by (simp add: mixedHabit_def exampleHabit_def)
  have t: "totalCompletions (calculateHabitStats 0 1704600000000 (Some mixedHabit)) = 2"
    by (simp add: calculateHabitStats_def Let_def mixedHabit_def exampleHabit_def)
  from C8_total_completions [OF d, of 0 1704600000000] t d show ?thesis
    by simp
qed

section \<open>The current streak\<close>

lemma streakLoop_numeral:
  "streakLoop tz h c (numeral k) cur (s, vs) =
     (if cur < c then (s, vs)
      else if isHabitScheduledOnDay tz h cur then
        (if isCompleted h (formatDate tz cur) then
           streakLoop tz h c (pred_numeral k) (addDays cur (- 1)) (s + 1, vs @ [cur])
         else (s, vs @ [cur]))
      else streakLoop tz h c (pred_numeral k) (addDays cur (- 1)) (s, vs @ [cur]))"
  by (simp add: numeral_eq_Suc Let_def)

text \<open>
  The loop only appends to the list of examined days: at most as many days as it has
  iterations left, none before the creation date, and at least as many as it adds to the
  streak.
\<close>

lemma streakLoop_seen:
  "streakLoop tz h c n cur (s, vs) = (s', vs') \<Longrightarrow>
     \<exists>ws. vs' = vs @ ws \<and> length ws \<le> n \<and> (\<forall>d\<in>set ws. c \<le> d) \<and> s \<le> s' \<and> s' \<le> s + length ws"
proof (induction n arbitrary: cur s vs)
  case 0
  then show ?case by simp
next
  case (Suc n)
  show ?case
  proof (cases "cur < c")
    case True
    with Suc.prems show ?thesis by simp
  next
    case False
    note ge = this
    show ?thesis
    proof (cases "isHabitScheduledOnDay tz h cur \<and> \<not> isCompleted h (formatDate tz cur)")
      case True
      with ge Suc.prems have "s' = s" "vs' = vs @ [cur]" by (simp_all add: Let_def)
      with ge show ?thesis by simp
    next
      case False
      define s1 where "s1 = (if isHabitScheduledOnDay tz h cur then s + 1 else s)"
      from False ge Suc.prems
      have "streakLoop tz h c n (addDays cur (- 1)) (s1, vs @ [cur]) = (s', vs')"
        by (auto simp: Let_def s1_def split: if_splits)
      from Suc.IH [OF this] obtain ws where
        ws: "vs' = (vs @ [cur]) @ ws" "length ws \<le> n" "\<forall>d\<in>set ws. c \<le> d" "s1 \<le> s'"
          "s' \<le> s1 + length ws"
        by blast
      have "vs' = vs @ (cur # ws) \<and> length (cur # ws) \<le> Suc n \<and> (\<forall>d\<in>set (cur # ws). c \<le> d)
              \<and> s \<le> s' \<and> s' \<le> s + length (cur # ws)"
        using ws ge by (auto simp: s1_def split: if_splits)
      then show ?thesis by blast
    qed
  qed
qed

text \<open>
  C3. The streak loop is defined by recursion on the number of iterations it has left,
  365 at the start, so it ends on every input. It examines at most 365 days, none of them
  before the habit's creation date set to midnight, and its result is at most the number
  of days it examined, so at most 365.
\<close>

theorem C3_streak_bounded:
  "length (snd (streakRun tz now h)) \<le> 365
   \<and> (\<forall>d \<in> set (snd (streakRun tz now h)). setHours0 tz (id_h h) \<le> d)
   \<and> calculateStreak tz now h \<le> length (snd (streakRun tz now h))
   \<and> calculateStreak tz now h \<le> 365"
proof -
  obtain s' vs' where r: "streakRun tz now h = (s', vs')"
    by (cases "streakRun tz now h")
  then have "streakLoop tz h (setHours0 tz (id_h h)) 365 (setHours0 tz now) (0, []) = (s', vs')"
    by (simp add: streakRun_def Let_def)
  from streakLoop_seen [OF this] show ?thesis
    by (auto simp: r calculateStreak_def)
qed

lemma streakRun_backfilled:
  "streakRun 0 1700070000000 backfilledHabit = (1, [1700006400000])"
  by (simp add: streakRun_def backfilledHabit_def exampleHabit_def streakLoop_numeral
      isHabitScheduledOnDay_def isCompleted_def date_eval)

theorem C3_streak_bounded_witness:
  "1700006400000 \<in> set (snd (streakRun 0 1700070000000 backfilledHabit))
   \<and> setHours0 0 (id_h backfilledHabit) \<le> 1700006400000
   \<and> calculateStreak 0 1700070000000 backfilledHabit \<le> 365"
  using C3_streak_bounded [of 0 1700070000000 backfilledHabit]
  by (simp add: streakRun_backfilled)

lemma streakLoop_fst:
  "fst (streakLoop tz h c n cur (s, vs)) =
     s + length (takeWhile (\<lambda>d. isCompleted h (formatDate tz d))
                  (filter (isHabitScheduledOnDay tz h) (walkBack c n cur)))"
  by (induction n arbitrary: cur s vs) (simp_all add: Let_def)

lemma walkBack_closed:
  "walkBack c n cur =
     map (\<lambda>i. addDays cur (- int i)) [0 ..< min n (nat ((cur - c) div msPerDay + 1))]"
proof (induction n arbitrary: cur)
  case 0
  then show ?case by simp
next
  case (Suc n)
  show ?case
  proof (cases "cur < c")
    case True
    then have "(cur - c) div msPerDay < 0"
      by (simp add: msPerDay_def)
    then show ?thesis using True by simp
  next
    case False
    have step: "(addDays cur (- 1) - c) div msPerDay + 1 = (cur - c) div msPerDay"
      by (simp add: addDays_def msPerDay_def)
    have nonneg: "0 \<le> (cur - c) div msPerDay"
      using False by (simp add: msPerDay_def)
    let ?m = "min n (nat ((cur - c) div msPerDay))"
    have m: "min (Suc n) (nat ((cur - c) div msPerDay + 1)) = Suc ?m"
      using nonneg by (simp add: nat_add_distrib)
    have "walkBack c (Suc n) cur = cur # map (\<lambda>i. addDays (addDays cur (- 1)) (- int i)) [0 ..< ?m]"
      using False by (simp add: Suc.IH step)
    also have "\<dots> = map (\<lambda>i. addDays cur (- int i)) [0 ..< Suc ?m]"
      by (simp add: upt_conv_Cons map_Suc_upt [symmetric] addDays_def algebra_simps del: upt_Suc)
    finally show ?thesis by (simp only: m)
  qed
qed

lemma calculateStreak_scan:
  "calculateStreak tz asOf h =
     length (takeWhile (\<lambda>d. isCompleted h (formatDate tz d))
       (filter (isHabitScheduledOnDay tz h)
          (spec_scanDays (setHours0 tz (id_h h)) (setHours0 tz asOf))))"
  by (simp add: calculateStreak_def streakRun_def Let_def streakLoop_fst walkBack_closed
      spec_scanDays_def)

lemma calculateStreak_monWed: "calculateStreak 0 1705500000000 monWedHabit = 6"
  by (simp add: calculateStreak_def streakRun_def monWedHabit_def exampleHabit_def
      streakLoop_numeral isHabitScheduledOnDay_def isCompleted_def date_eval)

text \<open>The streak of a walk without limits is unique.\<close>

lemma spec_backwardStreak_unique:
  assumes "spec_backwardStreak tz asOf h n" and "spec_backwardStreak tz asOf h m"
  shows "n = m"
proof -
  let ?day = "\<lambda>k. addDays (setHours0 tz asOf) (- int k)"
  let ?due = "\<lambda>k. spec_isDue tz h (?day k)"
  let ?done = "\<lambda>k. isCompleted h (formatDate tz (?day k))"
  from assms(1) obtain k where k: "?due k" "\<not> ?done k" "\<forall>i<k. ?due i \<longrightarrow> ?done i"
    "n = card {i. i < k \<and> ?due i}"
    unfolding spec_backwardStreak_def by blast
  from assms(2) obtain j where j: "?due j" "\<not> ?done j" "\<forall>i<j. ?due i \<longrightarrow> ?done i"
    "m = card {i. i < j \<and> ?due i}"
    unfolding spec_backwardStreak_def by blast
  have "\<not> k < j" using k(1,2) j(3) by blast
  moreover have "\<not> j < k" using j(1,2) k(3) by blast
  ultimately have "k = j" by simp
  with k(4) j(4) show ?thesis by simp
qed

lemma backfilled_unbounded_streak: "spec_backwardStreak 0 1700070000000 backfilledHabit 2"
proof -
  have due: "\<And>d. spec_isDue 0 backfilledHabit d"
    by (simp add: spec_isDue_def backfilledHabit_def exampleHabit_def)
  have d0: "isCompleted backfilledHabit (formatDate 0 (addDays (setHours0 0 1700070000000) (- int 0)))"
    by (simp add: isCompleted_def backfilledHabit_def exampleHabit_def date_eval)
  have d1: "isCompleted backfilledHabit (formatDate 0 (addDays (setHours0 0 1700070000000) (- int 1)))"
    by (simp add: isCompleted_def backfilledHabit_def exampleHabit_def date_eval)
  have d2: "\<not> isCompleted backfilledHabit (formatDate 0 (addDays (setHours0 0 1700070000000) (- int 2)))"
    by (simp add: isCompleted_def backfilledHabit_def exampleHabit_def date_eval)
  have all: "\<forall>i<2. spec_isDue 0 backfilledHabit (addDays (setHours0 0 1700070000000) (- int i)) \<longrightarrow>
      isCompleted backfilledHabit (formatDate 0 (addDays (setHours0 0 1700070000000) (- int i)))"
  proof (intro allI impI)
    fix i :: nat assume "i < 2"
    then have "i = 0 \<or> i = 1" by auto
    then show "isCompleted backfilledHabit (formatDate 0 (addDays (setHours0 0 1700070000000) (- int i)))"
      using d0 d1 by auto
  qed
  have "{i. i < (2::nat)} = {..<2}" by auto
  then have c: "(2::nat) = card {i. i < 2 \<and>
      spec_isDue 0 backfilledHabit (addDays (setHours0 0 1700070000000) (- int i))}"
    by (simp add: due)
  show ?thesis
    unfolding spec_backwardStreak_def
    using due d2 all c by (intro exI [of _ 2]) blast
qed

text \<open>
  C2, as stated, counts back to the first due day that is not completed, wherever it is.
  The habit \<open>backfilledHabit\<close> was created on 2023-11-15 and has the entry \<open>true\<close> for
  that day and for the day before; on 2023-11-15 the count of the claim is 2, and
  \<open>calculateStreak\<close>, which stops at the creation date, returns 1.
\<close>

theorem C2_unbounded_streak_counterexample:
  "\<not> spec_backwardStreak 0 1700070000000 backfilledHabit
       (calculateStreak 0 1700070000000 backfilledHabit)"
proof
  assume "spec_backwardStreak 0 1700070000000 backfilledHabit
            (calculateStreak 0 1700070000000 backfilledHabit)"
  then have "calculateStreak 0 1700070000000 backfilledHabit = 2"
    using backfilled_unbounded_streak by (rule spec_backwardStreak_unique)
  then show False
    by (simp add: calculateStreak_def streakRun_backfilled)
qed

lemma scanDays_midnight:
  "d \<in> set (spec_scanDays c (setHours0 tz a)) \<Longrightarrow> setHours0 tz d = d"
  by (auto simp: spec_scanDays_def setHours0_addDays_midnight)

lemma walkBack_numeral:
  "walkBack c (numeral k) cur =
     (if cur < c then [] else cur # walkBack c (pred_numeral k) (addDays cur (- 1)))"
  by (simp add: numeral_eq_Suc)

lemma scanDays_walkBack: "spec_scanDays c a = walkBack c 365 a"
  by (simp add: spec_scanDays_def walkBack_closed)

lemma calculateStreak_repeatsMidnight:
  "calculateStreak 0 1700308800000 repeatsMidnightHabit = 2"
  by (simp add: calculateStreak_def streakRun_def repeatsMidnightHabit_def exampleHabit_def
      streakLoop_numeral isHabitScheduledOnDay_def isCompleted_def date_eval)

text \<open>
  A \<open>Repeats\<close> habit created during the day is outside this: for the habit created on
  2023-11-15 at 15:00 that repeats every 3 days and was completed on 2023-11-15 and on
  2023-11-18, the due days of the walk from 2023-11-18 are those two, both completed,
  while \<open>calculateStreak\<close> returns 0: the evaluator of App.tsx schedules 2023-11-16
  instead, which has no entry.
\<close>

lemma calculateStreak_repeatsAfternoon:
  "calculateStreak 0 1700308800000 repeatsAfternoonHabit = 0
   \<and> length (takeWhile (\<lambda>d. isCompleted repeatsAfternoonHabit (formatDate 0 d))
        (filter (spec_isDue 0 repeatsAfternoonHabit)
           (spec_scanDays (setHours0 0 (id_h repeatsAfternoonHabit)) (setHours0 0 1700308800000))))
     = 2"
proof -
  have run: "calculateStreak 0 1700308800000 repeatsAfternoonHabit = 0"
    by (simp add: calculateStreak_def streakRun_def repeatsAfternoonHabit_def exampleHabit_def
        streakLoop_numeral isHabitScheduledOnDay_def isCompleted_def date_eval)
  have days: "spec_scanDays (setHours0 0 (id_h repeatsAfternoonHabit)) (setHours0 0 1700308800000)
      = [1700265600000, 1700179200000, 1700092800000, 1700006400000]"
    by (simp add: scanDays_walkBack walkBack_numeral repeatsAfternoonHabit_def exampleHabit_def
        setHours0_def addDays_def msPerDay_def)
  have due: "filter (spec_isDue 0 repeatsAfternoonHabit)
        [1700265600000, 1700179200000, 1700092800000, 1700006400000]
      = [1700265600000, 1700006400000]"
    by (simp add: spec_isDue_def repeatsAfternoonHabit_def exampleHabit_def
        getDaysDifference_def setHours0_def msPerDay_def)
  have comp: "takeWhile (\<lambda>d. isCompleted repeatsAfternoonHabit (formatDate 0 d))
        [1700265600000, 1700006400000] = [1700265600000, 1700006400000]"
    apply (simp only: takeWhile.simps)
    apply (simp add: isCompleted_def repeatsAfternoonHabit_def exampleHabit_def date_eval)
    done
  show ?thesis
    unfolding days due comp using run by simp
qed

text \<open>
  C2, amended. For every habit on which the evaluator follows the rule table (a habit
  that is not a \<open>Repeats\<close> habit with an interval above one day, or that was created at a
  local midnight), the current streak is the number of due days that come, in the
  backward walk from the reference day, before the first due day whose entry is not
  \<open>true\<close>; the walk goes over at most 365 days and never before the habit's creation
  date, days that are not due are left out, and the result is 0 when the first due day
  of the walk is not completed. For the habit due on Mondays and Wednesdays and
  completed on each of them for three weeks, the streak on the third Wednesday is 6.
\<close>

theorem C2_current_streak:
  assumes "frequencyType h \<noteq> ''Repeats'' \<or> repeatDays h \<le> 1 \<or> setHours0 tz (id_h h) = id_h h"
  shows "calculateStreak tz asOf h =
     length (takeWhile (\<lambda>d. isCompleted h (formatDate tz d))
       (filter (spec_isDue tz h)
          (spec_scanDays (setHours0 tz (id_h h)) (setHours0 tz asOf))))
   \<and> formatDate 0 1705500000000 = ''2024-01-17''
   \<and> weekdayShort 0 1705500000000 = ''Wed''
   \<and> calculateStreak 0 1705500000000 monWedHabit = 6"
proof -
  have "filter (isHabitScheduledOnDay tz h)
          (spec_scanDays (setHours0 tz (id_h h)) (setHours0 tz asOf))
        = filter (spec_isDue tz h)
          (spec_scanDays (setHours0 tz (id_h h)) (setHours0 tz asOf))"
    by (intro filter_cong refl evaluator_follows_rule [OF assms] scanDays_midnight)
  then have "calculateStreak tz asOf h =
     length (takeWhile (\<lambda>d. isCompleted h (formatDate tz d))
       (filter (spec_isDue tz h)
          (spec_scanDays (setHours0 tz (id_h h)) (setHours0 tz asOf))))"
    by (simp only: calculateStreak_scan)
  moreover have "formatDate 0 1705500000000 = ''2024-01-17''"
    and "weekdayShort 0 1705500000000 = ''Wed''"
    by (simp_all add: date_eval)
  ultimately show ?thesis
    using calculateStreak_monWed by blast
qed

theorem C2_current_streak_witness:
  "frequencyType monWedHabit \<noteq> ''Repeats''
   \<and> setHours0 0 (id_h repeatsMidnightHabit) = id_h repeatsMidnightHabit
   \<and> length (takeWhile (\<lambda>d. isCompleted monWedHabit (formatDate 0 d))
        (filter (spec_isDue 0 monWedHabit)
           (spec_scanDays (setHours0 0 (id_h monWedHabit)) (setHours0 0 1705500000000)))) = 6
   \<and> length (takeWhile (\<lambda>d. isCompleted repeatsMidnightHabit (formatDate 0 d))
        (filter (spec_isDue 0 repeatsMidnightHabit)
           (spec_scanDays (setHours0 0 (id_h repeatsMidnightHabit)) (setHours0 0 1700308800000))))
      = 2"
proof -
  have a: "frequencyType monWedHabit \<noteq> ''Repeats''"
    by (simp add: monWedHabit_def exampleHabit_def)
  have b: "setHours0 0 (id_h repeatsMidnightHabit) = id_h repeatsMidnightHabit"
    by (simp add: repeatsMidnightHabit_def exampleHabit_def setHours0_def msPerDay_def)
  have a': "frequencyType monWedHabit \<noteq> ''Repeats'' \<or> repeatDays monWedHabit \<le> 1
              \<or> setHours0 0 (id_h monWedHabit) = id_h monWedHabit"
    using a by blast
  have b': "frequencyType repeatsMidnightHabit \<noteq> ''Repeats'' \<or> repeatDays repeatsMidnightHabit \<le> 1
              \<or> setHours0 0 (id_h repeatsMidnightHabit) = id_h repeatsMidnightHabit"
    using b by blast
  from C2_current_streak [OF a', of 1705500000000]
  have c: "length (takeWhile (\<lambda>d. isCompleted monWedHabit (formatDate 0 d))
        (filter (spec_isDue 0 monWedHabit)
           (spec_scanDays (setHours0 0 (id_h monWedHabit)) (setHours0 0 1705500000000)))) = 6"
    by metis
  from C2_current_streak [OF b', of 1700308800000] calculateStreak_repeatsMidnight
  have d: "length (takeWhile (\<lambda>d. isCompleted repeatsMidnightHabit (formatDate 0 d))
        (filter (spec_isDue 0 repeatsMidnightHabit)
           (spec_scanDays (setHours0 0 (id_h repeatsMidnightHabit)) (setHours0 0 1700308800000))))
      = 2"
    by metis
  from a b c d show ?thesis by blast
qed

section \<open>The highest streak\<close>
















end
